theory Spec2Isabelle
  imports Main
begin

section \<open>JavaScript values\<close>

text \<open>
  The decorator is generic in the inputs \<open>I\<close> and the output \<open>O\<close> of the function
  it wraps; it looks at these values in two places only: the comparison
  \<^verbatim>\<open>actualOutput !== output\<close> and the text of the mismatch message. The values are
  the primitives of the language and references to objects. Numbers are the integers and
  \<open>NaN\<close>, the one number that is not strictly equal to itself. An object is known by
  its address; an \<^verbatim>\<open>Error\<close> object also by its message, which is taken not to change.
\<close>

datatype jsval =
    JUndefined
  | JNull
  | JBool bool
  | JNum int
  | JNaN
  | JStr string
  | JObj nat
  | JError nat string

text \<open>The operator \<^verbatim>\<open>===\<close>: equal primitives, or the same object; never \<open>NaN\<close>.\<close>

fun strict_eq :: "jsval \<Rightarrow> jsval \<Rightarrow> bool" where
  "strict_eq JNaN _ = False"
| "strict_eq _ JNaN = False"
| "strict_eq a b = (a = b)"

text \<open>A number as text: the decimal digits, as the language prints an integer below \<open>10\<^sup>2\<^sup>1\<close>.\<close>

fun digits :: "nat \<Rightarrow> string" where
  "digits n = (if n < 10 then [''0123456789'' ! n]
               else digits (n div 10) @ [''0123456789'' ! (n mod 10)])"

definition number_to_string :: "int \<Rightarrow> string" where
  "number_to_string i = (if i < 0 then ''-'' @ digits (nat (- i)) else digits (nat i))"

text \<open>
  The conversion to a string that a template literal applies to each \<^verbatim>\<open>${...}\<close>.
  An object is taken to have the conversion it inherits from \<^verbatim>\<open>Object.prototype\<close>,
  an \<^verbatim>\<open>Error\<close> object the one of \<^verbatim>\<open>Error.prototype\<close>.
\<close>

fun to_string :: "jsval \<Rightarrow> string" where
  "to_string JUndefined = ''undefined''"
| "to_string JNull = ''null''"
| "to_string (JBool b) = (if b then ''true'' else ''false'')"
| "to_string (JNum i) = number_to_string i"
| "to_string JNaN = ''NaN''"
| "to_string (JStr s) = s"
| "to_string (JObj a) = ''[object Object]''"
| "to_string (JError a m) = (if m = [] then ''Error'' else ''Error: '' @ m)"

text \<open>\<^verbatim>\<open>Array.prototype.join\<close>: \<open>undefined\<close> and \<open>null\<close> elements give the empty string.\<close>

fun join_element :: "jsval \<Rightarrow> string" where
  "join_element JUndefined = []"
| "join_element JNull = []"
| "join_element v = to_string v"

fun join :: "jsval list \<Rightarrow> string \<Rightarrow> string" where
  "join [] sep = []"
| "join [v] sep = join_element v"
| "join (v # vs) sep = join_element v @ sep @ join vs sep"

section \<open>Functions, hooks and the configuration\<close>

text \<open>
  A JavaScript function may read and change the world around it and may throw, so a call
  takes the world and gives back either the thrown value (\<open>Inl\<close>) or the returned value
  (\<open>Inr\<close>), with the world it leaves. The base function carries its \<^verbatim>\<open>name\<close>, which
  the mismatch message prints.
\<close>

type_synonym ('a, 'w) effect = "'w \<Rightarrow> (jsval + 'a) \<times> 'w"

record 'w fn =
  name :: string
  body :: "jsval list \<Rightarrow> (jsval, 'w) effect"

text \<open>
  The four optional fields of \<^verbatim>\<open>config\<close>. Every hook receives the base function as its
  first argument.
\<close>

record 'w config =
  assertions :: "(jsval list \<times> jsval) list option"
  handleError :: "('w fn \<Rightarrow> jsval \<Rightarrow> jsval list \<Rightarrow> (jsval, 'w) effect) option"
  handleInput :: "('w fn \<Rightarrow> jsval list \<Rightarrow> (jsval list, 'w) effect) option"
  handleOutput :: "('w fn \<Rightarrow> jsval \<Rightarrow> jsval list \<Rightarrow> (jsval, 'w) effect) option"

section \<open>Calls made by the decorator\<close>

text \<open>
  To speak of which functions the decorator calls, and in which order, every call it makes
  is written to a list beside the world. The list is an observer: no function of the program
  reads it, and the hooks and the base function see the world only.
\<close>

datatype event =
    CallInput "jsval list"
  | CallBase "jsval list"
  | CallOutput jsval "jsval list"
  | CallError jsval "jsval list"

record 'w st =
  world :: 'w
  calls :: "event list"

type_synonym 'w decorated = "jsval list \<Rightarrow> 'w st \<Rightarrow> (jsval + jsval) \<times> 'w st"

definition invoke :: "event \<Rightarrow> ('a, 'w) effect \<Rightarrow> 'w st \<Rightarrow> (jsval + 'a) \<times> 'w st" where
  "invoke ev f s =
     (case f (world s) of (r, w') \<Rightarrow> (r, \<lparr>world = w', calls = calls s @ [ev]\<rparr>))"

text \<open>The base function handed back as it is: calling it is no call of the decorator's.\<close>

definition undecorated :: "'w fn \<Rightarrow> 'w decorated" where
  "undecorated defn inputs s =
     (case body defn inputs (world s) of (r, w') \<Rightarrow> (r, s\<lparr>world := w'\<rparr>))"

section \<open>The wrapped function\<close>

text \<open>
  The \<^verbatim>\<open>try\<close> block of \<^verbatim>\<open>functionWithMiddleware\<close>. The variable \<^verbatim>\<open>inputs\<close> is
  assigned inside the block and read by the \<^verbatim>\<open>catch\<close> clause, so the block gives back
  the value \<^verbatim>\<open>inputs\<close> holds when it is left: the assignment does not happen when
  \<^verbatim>\<open>handleInput\<close> throws.
\<close>

definition try_block ::
  "'w fn \<Rightarrow> 'w config \<Rightarrow> jsval list \<Rightarrow> 'w st \<Rightarrow> (jsval + jsval) \<times> jsval list \<times> 'w st" where
  "try_block defn cfg inputs s =
     (case (case handleInput cfg of
              None \<Rightarrow> (Inr inputs, s)
            | Some hi \<Rightarrow> invoke (CallInput inputs) (hi defn inputs) s) of
        (Inl e, s1) \<Rightarrow> (Inl e, inputs, s1)
      | (Inr inputs', s1) \<Rightarrow>
          (case invoke (CallBase inputs') (body defn inputs') s1 of
             (Inl e, s2) \<Rightarrow> (Inl e, inputs', s2)
           | (Inr output, s2) \<Rightarrow>
               (case handleOutput cfg of
                  None \<Rightarrow> (Inr output, inputs', s2)
                | Some ho \<Rightarrow>
                    (case invoke (CallOutput output inputs') (ho defn output inputs') s2 of
                       (r, s3) \<Rightarrow> (r, inputs', s3)))))"

definition functionWithMiddleware :: "'w fn \<Rightarrow> 'w config \<Rightarrow> 'w decorated" where
  "functionWithMiddleware defn cfg inputs s =
     (case try_block defn cfg inputs s of
        (Inr output, inputs', s') \<Rightarrow> (Inr output, s')
      | (Inl error, inputs', s') \<Rightarrow>
          (case handleError cfg of
             Some he \<Rightarrow> invoke (CallError error inputs') (he defn error inputs') s'
           | None \<Rightarrow> (Inl error, s')))"

section \<open>Decoration\<close>

text \<open>
  What a call of \<^verbatim>\<open>createFunctionWithMiddleware\<close> can throw: a value thrown by the
  wrapped function while an assertion is checked, or the \<^verbatim>\<open>Error\<close> object it builds
  itself, known by its message.
\<close>

datatype exn = Raised jsval | NewError string

definition mismatch_message :: "'w fn \<Rightarrow> jsval list \<Rightarrow> jsval \<Rightarrow> jsval \<Rightarrow> string" where
  "mismatch_message defn inputs output actualOutput =
     ''Expected '' @ name defn @ ''('' @ join inputs '', '' @ '') to return ''
       @ to_string output @ '', but got '' @ to_string actualOutput @ ''.''"

text \<open>The \<^verbatim>\<open>forEach\<close> over the assertions; a throw in the callback ends it.\<close>

fun check_assertions ::
  "'w fn \<Rightarrow> 'w decorated \<Rightarrow> (jsval list \<times> jsval) list \<Rightarrow> 'w st \<Rightarrow> exn option \<times> 'w st" where
  "check_assertions defn f [] s = (None, s)"
| "check_assertions defn f ((inputs, output) # rest) s =
     (case f inputs s of
        (Inl e, s') \<Rightarrow> (Some (Raised e), s')
      | (Inr actualOutput, s') \<Rightarrow>
          if \<not> strict_eq actualOutput output
          then (Some (NewError (mismatch_message defn inputs output actualOutput)), s')
          else check_assertions defn f rest s')"

definition createFunctionWithMiddleware ::
  "'w fn \<Rightarrow> 'w config option \<Rightarrow> 'w st \<Rightarrow> (exn + 'w decorated) \<times> 'w st" where
  "createFunctionWithMiddleware defn config s =
     (case config of
        None \<Rightarrow> (Inr (undecorated defn), s)
      | Some cfg \<Rightarrow>
          (case check_assertions defn (functionWithMiddleware defn cfg)
                  (case assertions cfg of None \<Rightarrow> [] | Some as \<Rightarrow> as) s of
             (Some e, s') \<Rightarrow> (Inl e, s')
           | (None, s') \<Rightarrow> (Inr (functionWithMiddleware defn cfg), s')))"

section \<open>Functions and hooks of the tests and of the documentation\<close>

text \<open>
  From the test file: \<^verbatim>\<open>testFunction = (a, b) => a + b\<close>, the input hook
  \<^verbatim>\<open>(definition, a, b) => [a * 2, b * 2]\<close>, the output hook
  \<^verbatim>\<open>(definition, output, a, b) => output * 2\<close>, the function \<^verbatim>\<open>faultyFunc\<close> that
  throws \<^verbatim>\<open>new Error("test error")\<close> and the error hook that returns
  \<^verbatim>\<open>"error handled"\<close>. Arithmetic on anything but two numbers stands as \<open>NaN\<close>.
\<close>

fun add_body :: "jsval list \<Rightarrow> (jsval, 'w) effect" where
  "add_body [JNum a, JNum b] w = (Inr (JNum (a + b)), w)"
| "add_body _ w = (Inr JNaN, w)"

definition testFunction :: "'w fn" where
  "testFunction = \<lparr>name = ''testFunction'', body = add_body\<rparr>"

fun doubleInputs :: "'w fn \<Rightarrow> jsval list \<Rightarrow> (jsval list, 'w) effect" where
  "doubleInputs defn [JNum a, JNum b] w = (Inr [JNum (a * 2), JNum (b * 2)], w)"
| "doubleInputs defn _ w = (Inr [JNaN, JNaN], w)"

fun doubleOutput :: "'w fn \<Rightarrow> jsval \<Rightarrow> jsval list \<Rightarrow> (jsval, 'w) effect" where
  "doubleOutput defn (JNum output) inputs w = (Inr (JNum (output * 2)), w)"
| "doubleOutput defn _ inputs w = (Inr JNaN, w)"

fun throwTestError :: "jsval list \<Rightarrow> (jsval, 'w) effect" where
  "throwTestError inputs w = (Inl (JError 0 ''test error''), w)"

definition faultyFunc :: "'w fn" where
  "faultyFunc = \<lparr>name = ''faultyFunc'', body = throwTestError\<rparr>"

fun errorHandled :: "'w fn \<Rightarrow> jsval \<Rightarrow> jsval list \<Rightarrow> (jsval, 'w) effect" where
  "errorHandled defn error inputs w = (Inr (JStr ''error handled''), w)"

text \<open>
  From the README (examples 5 and 7): the input hook that throws
  \<^verbatim>\<open>new Error('Inputs must be numbers')\<close> unless \<^verbatim>\<open>typeof a\<close> and \<^verbatim>\<open>typeof b\<close>
  are both \<^verbatim>\<open>'number'\<close>, and returns \<^verbatim>\<open>[a, b]\<close> otherwise.
\<close>

fun is_number :: "jsval \<Rightarrow> bool" where
  "is_number (JNum i) = True"
| "is_number JNaN = True"
| "is_number _ = False"

fun validateNumbers :: "'w fn \<Rightarrow> jsval list \<Rightarrow> (jsval list, 'w) effect" where
  "validateNumbers defn (a # b # rest) w =
     (if \<not> is_number a \<or> \<not> is_number b then (Inl (JError 1 ''Inputs must be numbers''), w)
      else (Inr [a, b], w))"
| "validateNumbers defn _ w = (Inl (JError 1 ''Inputs must be numbers''), w)"

text \<open>
  A counting output hook, whose world is the number of times it has run, and an error hook
  that throws the error it is given again (as the error handler of the registry article
  does after logging).
\<close>

fun countOutput :: "nat fn \<Rightarrow> jsval \<Rightarrow> jsval list \<Rightarrow> (jsval, nat) effect" where
  "countOutput defn output inputs n = (Inr output, Suc n)"

fun rethrow :: "'w fn \<Rightarrow> jsval \<Rightarrow> jsval list \<Rightarrow> (jsval, 'w) effect" where
  "rethrow defn error inputs w = (Inl error, w)"

definition cfg_double :: "'w config" where
  "cfg_double = \<lparr>assertions = None, handleError = None,
     handleInput = Some doubleInputs, handleOutput = Some doubleOutput\<rparr>"

definition cfg_recover :: "nat config" where
  "cfg_recover = \<lparr>assertions = None, handleError = Some errorHandled,
     handleInput = Some doubleInputs, handleOutput = Some countOutput\<rparr>"

definition cfg_validate :: "'w config" where
  "cfg_validate = \<lparr>assertions = None, handleError = Some errorHandled,
     handleInput = Some validateNumbers, handleOutput = None\<rparr>"

definition cfg_rethrow :: "'w config" where
  "cfg_rethrow = \<lparr>assertions = None, handleError = Some rethrow,
     handleInput = None, handleOutput = None\<rparr>"

text \<open>The configuration of the test of the assertions: nothing but the pairs.\<close>

definition cfg_asserts :: "(jsval list \<times> jsval) list \<Rightarrow> 'w config" where
  "cfg_asserts as = \<lparr>assertions = Some as, handleError = None,
     handleInput = None, handleOutput = None\<rparr>"

definition cfg_validate_asserts :: "(jsval list \<times> jsval) list \<Rightarrow> 'w config" where
  "cfg_validate_asserts as = \<lparr>assertions = Some as, handleError = None,
     handleInput = Some validateNumbers, handleOutput = None\<rparr>"

text \<open>An output hook that throws on a negative number and returns any other output.\<close>

fun rejectNegative :: "'w fn \<Rightarrow> jsval \<Rightarrow> jsval list \<Rightarrow> (jsval, 'w) effect" where
  "rejectNegative defn (JNum output) inputs w =
     (if output < 0 then (Inl (JError 2 ''Output must not be negative''), w)
      else (Inr (JNum output), w))"
| "rejectNegative defn output inputs w = (Inr output, w)"

definition cfg_checked :: "'w config" where
  "cfg_checked = \<lparr>assertions = None, handleError = Some errorHandled,
     handleInput = Some doubleInputs, handleOutput = Some rejectNegative\<rparr>"

text \<open>The object \<^verbatim>\<open>{}\<close> given as the configuration.\<close>

definition empty_config :: "'w config" where
  "empty_config = \<lparr>assertions = None, handleError = None,
     handleInput = None, handleOutput = None\<rparr>"

section \<open>Notions used to state the properties\<close>

text \<open>The call of the input hook, when there is one.\<close>

definition input_events :: "('w, 'z) config_scheme \<Rightarrow> jsval list \<Rightarrow> event list" where
  "input_events cfg x = (case handleInput cfg of None \<Rightarrow> [] | Some hi \<Rightarrow> [CallInput x])"

text \<open>
  A decorated function behaves as the base function: on every input and in every world
  it returns the same value or throws the same value, and leaves the same world.
\<close>

definition same_behaviour :: "'w decorated \<Rightarrow> 'w fn \<Rightarrow> bool" where
  "same_behaviour g defn \<longleftrightarrow>
     (\<forall>x s. fst (g x s) = fst (body defn x (world s))
          \<and> world (snd (g x s)) = snd (body defn x (world s)))"

text \<open>
  Every pair of the list matches: called on the inputs of each pair in turn, the function
  returns a value strictly equal to the expected one. The result is the state after the
  last call.
\<close>

fun all_match :: "'w decorated \<Rightarrow> (jsval list \<times> jsval) list \<Rightarrow> 'w st \<Rightarrow> 'w st option" where
  "all_match g [] s = Some s"
| "all_match g ((inputs, expected) # rest) s =
     (case g inputs s of
        (Inl e, s') \<Rightarrow> None
      | (Inr actual, s') \<Rightarrow> if strict_eq actual expected then all_match g rest s' else None)"

text \<open>
  A pure call neither reads nor changes the world. The parts of a decoration are pure when
  the base function is and every hook of the configuration is.
\<close>

definition pure_effect :: "('a, 'w) effect \<Rightarrow> bool" where
  "pure_effect f \<longleftrightarrow> (\<forall>w w'. fst (f w) = fst (f w') \<and> snd (f w) = w)"

definition pure_parts :: "'w fn \<Rightarrow> 'w config option \<Rightarrow> bool" where
  "pure_parts defn config \<longleftrightarrow>
     (\<forall>x. pure_effect (body defn x)) \<and>
     (\<forall>cfg. config = Some cfg \<longrightarrow>
        (\<forall>hi x. handleInput cfg = Some hi \<longrightarrow> pure_effect (hi defn x)) \<and>
        (\<forall>ho y x. handleOutput cfg = Some ho \<longrightarrow> pure_effect (ho defn y x)) \<and>
        (\<forall>he e x. handleError cfg = Some he \<longrightarrow> pure_effect (he defn e x)))"

text \<open>Calls of a decorated function one after the other, whatever they return or throw.\<close>

fun run_calls :: "'w decorated \<Rightarrow> jsval list list \<Rightarrow> 'w st \<Rightarrow> 'w st" where
  "run_calls g [] s = s"
| "run_calls g (x # xs) s = run_calls g xs (snd (g x s))"

section \<open>The stages of one call\<close>

lemma invoke_eq:
  "f (world s) = (r, w') \<Longrightarrow> invoke ev f s = (r, \<lparr>world = w', calls = calls s @ [ev]\<rparr>)"
  by (simp add: invoke_def)

lemma try_block_input_throws:
  assumes "handleInput cfg = Some hi" and "hi defn x (world s) = (Inl e, w1)"
  shows "try_block defn cfg x s = (Inl e, x, \<lparr>world = w1, calls = calls s @ [CallInput x]\<rparr>)"
  using assms by (simp add: try_block_def invoke_eq)

lemma try_block_base_throws:
  assumes "case handleInput cfg of None \<Rightarrow> x' = x \<and> w1 = world s
           | Some hi \<Rightarrow> hi defn x (world s) = (Inr x', w1)"
    and "body defn x' w1 = (Inl e, w2)"
  shows "try_block defn cfg x s =
           (Inl e, x', \<lparr>world = w2, calls = calls s @ input_events cfg x @ [CallBase x']\<rparr>)"
  using assms by (cases "handleInput cfg") (simp_all add: try_block_def invoke_eq input_events_def)

lemma try_block_output_stage:
  assumes "case handleInput cfg of None \<Rightarrow> x' = x \<and> w1 = world s
           | Some hi \<Rightarrow> hi defn x (world s) = (Inr x', w1)"
    and "body defn x' w1 = (Inr y, w2)"
  shows "try_block defn cfg x s =
           (case handleOutput cfg of
              None \<Rightarrow> (Inr y, x', \<lparr>world = w2, calls = calls s @ input_events cfg x @ [CallBase x']\<rparr>)
            | Some ho \<Rightarrow> (fst (ho defn y x' w2), x',
                \<lparr>world = snd (ho defn y x' w2),
                 calls = calls s @ input_events cfg x @ [CallBase x', CallOutput y x']\<rparr>))"
  using assms
  by (cases "handleInput cfg"; cases "handleOutput cfg")
     (simp_all add: try_block_def invoke_eq input_events_def invoke_def split: prod.splits)

lemma try_block_calls:
  "\<exists>evs. calls (snd (snd (try_block defn cfg x s))) = calls s @ evs
         \<and> (\<forall>e ins. CallError e ins \<notin> set evs)"
  by (cases "handleInput cfg"; cases "handleOutput cfg")
     (auto simp: try_block_def invoke_def split: prod.splits sum.splits)

text \<open>
  C2. When no stage throws, the wrapped function returns what the output hook returns on
  the base function's output and the transformed inputs, the base function having been
  called on what the input hook returned for the inputs of the call; an absent hook leaves
  its stage the identity. The calls are made in this order.
\<close>

theorem wrapped_composes_stages:
  assumes "case handleInput cfg of None \<Rightarrow> x' = x \<and> w1 = world s
           | Some hi \<Rightarrow> hi defn x (world s) = (Inr x', w1)"
    and "body defn x' w1 = (Inr y, w2)"
    and "case handleOutput cfg of None \<Rightarrow> z = y \<and> w3 = w2
         | Some ho \<Rightarrow> ho defn y x' w2 = (Inr z, w3)"
  shows "functionWithMiddleware defn cfg x s =
           (Inr z, \<lparr>world = w3,
                    calls = calls s @ input_events cfg x @ [CallBase x']
                      @ (case handleOutput cfg of None \<Rightarrow> [] | Some ho \<Rightarrow> [CallOutput y x'])\<rparr>)"
  using assms(3) try_block_output_stage [OF assms(1,2)]
  by (cases "handleOutput cfg") (simp_all add: functionWithMiddleware_def)

theorem wrapped_composes_stages_witness:
  "functionWithMiddleware (testFunction :: unit fn) cfg_double [JNum 2, JNum 3]
       \<lparr>world = (), calls = []\<rparr>
     = (Inr (JNum 20), \<lparr>world = (), calls = [CallInput [JNum 2, JNum 3], CallBase [JNum 4, JNum 6],
          CallOutput (JNum 10) [JNum 4, JNum 6]]\<rparr>)"
  using wrapped_composes_stages [where cfg = "cfg_double :: unit config" and x = "[JNum 2, JNum 3]"
      and x' = "[JNum 4, JNum 6]" and s = "\<lparr>world = (), calls = []\<rparr>" and defn = testFunction
      and y = "JNum 10" and z = "JNum 20" and ?w1.0 = "()" and ?w2.0 = "()" and ?w3.0 = "()"]
  by (simp add: cfg_double_def testFunction_def input_events_def)

text \<open>
  C3. With an error hook, when the base function throws, the wrapped function gives back
  what the error hook gives on the base function, the error and the transformed inputs;
  the output hook is not among the calls of that invocation.
\<close>

theorem recovery_excludes_output:
  assumes "handleError cfg = Some he"
    and "case handleInput cfg of None \<Rightarrow> x' = x \<and> w1 = world s
         | Some hi \<Rightarrow> hi defn x (world s) = (Inr x', w1)"
    and "body defn x' w1 = (Inl e, w2)"
  shows "functionWithMiddleware defn cfg x s =
           (fst (he defn e x' w2),
            \<lparr>world = snd (he defn e x' w2),
             calls = calls s @ input_events cfg x @ [CallBase x', CallError e x']\<rparr>)
         \<and> (\<forall>out ins. CallOutput out ins \<notin>
               set (drop (length (calls s)) (calls (snd (functionWithMiddleware defn cfg x s)))))"
  using assms(1) try_block_base_throws [OF assms(2,3)]
  by (simp add: functionWithMiddleware_def invoke_def input_events_def
      split: prod.splits option.splits)

theorem recovery_excludes_output_witness:
  "functionWithMiddleware faultyFunc cfg_recover [JNum 1, JNum 2] \<lparr>world = 0, calls = []\<rparr>
     = (Inr (JStr ''error handled''),
        \<lparr>world = 0, calls = [CallInput [JNum 1, JNum 2], CallBase [JNum 2, JNum 4],
           CallError (JError 0 ''test error'') [JNum 2, JNum 4]]\<rparr>)"
  using recovery_excludes_output [where cfg = cfg_recover and he = errorHandled
      and x = "[JNum 1, JNum 2]" and x' = "[JNum 2, JNum 4]" and s = "\<lparr>world = 0, calls = []\<rparr>"
      and defn = faultyFunc and e = "JError 0 ''test error''" and ?w1.0 = 0 and ?w2.0 = 0]
  by (simp add: cfg_recover_def faultyFunc_def input_events_def)

text \<open>
  C6. Without an error hook, an error thrown by the base function is thrown by the wrapped
  function, the same value.
\<close>

theorem unrecovered_error_propagates:
  assumes "handleError cfg = None"
    and "case handleInput cfg of None \<Rightarrow> x' = x \<and> w1 = world s
         | Some hi \<Rightarrow> hi defn x (world s) = (Inr x', w1)"
    and "body defn x' w1 = (Inl e, w2)"
  shows "functionWithMiddleware defn cfg x s =
           (Inl e, \<lparr>world = w2, calls = calls s @ input_events cfg x @ [CallBase x']\<rparr>)"
  using assms(1) try_block_base_throws [OF assms(2,3)]
  by (simp add: functionWithMiddleware_def)

theorem unrecovered_error_propagates_witness:
  "functionWithMiddleware (faultyFunc :: unit fn) cfg_double [JNum 1, JNum 2]
       \<lparr>world = (), calls = []\<rparr>
     = (Inl (JError 0 ''test error''),
        \<lparr>world = (), calls = [CallInput [JNum 1, JNum 2], CallBase [JNum 2, JNum 4]]\<rparr>)"
  using unrecovered_error_propagates [where cfg = "cfg_double :: unit config"
      and x = "[JNum 1, JNum 2]" and x' = "[JNum 2, JNum 4]" and s = "\<lparr>world = (), calls = []\<rparr>"
      and defn = faultyFunc and e = "JError 0 ''test error''" and ?w1.0 = "()" and ?w2.0 = "()"]
  by (simp add: cfg_double_def faultyFunc_def input_events_def)

text \<open>
  C1. The claim: a throw of the input hook or of the output hook leaves the wrapped
  function as it is, and the error hook is not called. In the code both hooks run inside
  the \<^verbatim>\<open>try\<close> block, so the \<^verbatim>\<open>catch\<close> clause hands their errors to the error
  hook. The input hook of the README throws on a string; the wrapped function returns what
  the error hook returns.
\<close>

theorem hook_error_counterexample:
  "validateNumbers (testFunction :: unit fn) [JStr ''7'', JNum 2] ()
     = (Inl (JError 1 ''Inputs must be numbers''), ())
   \<and> functionWithMiddleware (testFunction :: unit fn) cfg_validate [JStr ''7'', JNum 2]
         \<lparr>world = (), calls = []\<rparr>
     = (Inr (JStr ''error handled''),
        \<lparr>world = (), calls = [CallInput [JStr ''7'', JNum 2],
           CallError (JError 1 ''Inputs must be numbers'') [JStr ''7'', JNum 2]]\<rparr>)"
  by (simp add: functionWithMiddleware_def try_block_def invoke_def cfg_validate_def)

text \<open>
  C1, as the code has it. With an error hook, an error thrown by the input hook or by the
  output hook is handed to the error hook, with the inputs as they are when it is thrown:
  those of the call for the input hook, the transformed ones for the output hook. The
  wrapped function gives back what the error hook gives.
\<close>

theorem hook_errors_reach_handleError:
  assumes "handleError cfg = Some he"
  shows "(\<forall>hi e w1. handleInput cfg = Some hi \<and> hi defn x (world s) = (Inl e, w1) \<longrightarrow>
            functionWithMiddleware defn cfg x s =
              (fst (he defn e x w1),
               \<lparr>world = snd (he defn e x w1), calls = calls s @ [CallInput x, CallError e x]\<rparr>))
       \<and> (\<forall>ho x' w1 y w2 e w3.
            (case handleInput cfg of None \<Rightarrow> x' = x \<and> w1 = world s
             | Some hi \<Rightarrow> hi defn x (world s) = (Inr x', w1)) \<and>
            body defn x' w1 = (Inr y, w2) \<and>
            handleOutput cfg = Some ho \<and> ho defn y x' w2 = (Inl e, w3) \<longrightarrow>
            functionWithMiddleware defn cfg x s =
              (fst (he defn e x' w3),
               \<lparr>world = snd (he defn e x' w3),
                calls = calls s @ input_events cfg x
                  @ [CallBase x', CallOutput y x', CallError e x']\<rparr>))"
proof (intro conjI allI impI)
  fix hi e w1
  assume "handleInput cfg = Some hi \<and> hi defn x (world s) = (Inl e, w1)"
  then show "functionWithMiddleware defn cfg x s =
      (fst (he defn e x w1),
       \<lparr>world = snd (he defn e x w1), calls = calls s @ [CallInput x, CallError e x]\<rparr>)"
    using assms try_block_input_throws [where cfg = cfg and hi = hi and defn = defn and x = x
        and s = s and e = e and ?w1.0 = w1]
    by (simp add: functionWithMiddleware_def invoke_def split: prod.splits)
next
  fix ho x' w1 y w2 e w3
  assume h: "(case handleInput cfg of None \<Rightarrow> x' = x \<and> w1 = world s
             | Some hi \<Rightarrow> hi defn x (world s) = (Inr x', w1)) \<and>
            body defn x' w1 = (Inr y, w2) \<and>
            handleOutput cfg = Some ho \<and> ho defn y x' w2 = (Inl e, w3)"
  then have a: "case handleInput cfg of None \<Rightarrow> x' = x \<and> w1 = world s
             | Some hi \<Rightarrow> hi defn x (world s) = (Inr x', w1)"
    and b: "body defn x' w1 = (Inr y, w2)"
    and c: "handleOutput cfg = Some ho" "ho defn y x' w2 = (Inl e, w3)"
    by simp_all
  have "try_block defn cfg x s =
      (Inl e, x', \<lparr>world = w3,
         calls = calls s @ input_events cfg x @ [CallBase x', CallOutput y x']\<rparr>)"
    using try_block_output_stage [OF a b] c by simp
  then show "functionWithMiddleware defn cfg x s =
      (fst (he defn e x' w3),
       \<lparr>world = snd (he defn e x' w3),
        calls = calls s @ input_events cfg x @ [CallBase x', CallOutput y x', CallError e x']\<rparr>)"
    using assms by (simp add: functionWithMiddleware_def invoke_def split: prod.splits)
qed

theorem hook_errors_reach_handleError_witness:
  "functionWithMiddleware (testFunction :: unit fn) cfg_validate [JNull, JNum 2]
       \<lparr>world = (), calls = []\<rparr>
     = (Inr (JStr ''error handled''),
        \<lparr>world = (), calls = [CallInput [JNull, JNum 2],
           CallError (JError 1 ''Inputs must be numbers'') [JNull, JNum 2]]\<rparr>)
   \<and> functionWithMiddleware (testFunction :: unit fn) cfg_checked [JNum (- 1), JNum 0]
       \<lparr>world = (), calls = []\<rparr>
     = (Inr (JStr ''error handled''),
        \<lparr>world = (), calls = [CallInput [JNum (- 1), JNum 0], CallBase [JNum (- 2), JNum 0],
           CallOutput (JNum (- 2)) [JNum (- 2), JNum 0],
           CallError (JError 2 ''Output must not be negative'') [JNum (- 2), JNum 0]]\<rparr>)"
proof
  show "functionWithMiddleware (testFunction :: unit fn) cfg_validate [JNull, JNum 2]
       \<lparr>world = (), calls = []\<rparr>
     = (Inr (JStr ''error handled''),
        \<lparr>world = (), calls = [CallInput [JNull, JNum 2],
           CallError (JError 1 ''Inputs must be numbers'') [JNull, JNum 2]]\<rparr>)"
    using hook_errors_reach_handleError [where cfg = "cfg_validate :: unit config"
        and he = errorHandled and defn = testFunction and x = "[JNull, JNum 2]"
        and s = "\<lparr>world = (), calls = []\<rparr>", THEN conjunct1, rule_format,
        where hi = validateNumbers and e = "JError 1 ''Inputs must be numbers''" and ?w1.0 = "()"]
    by (simp add: cfg_validate_def)
next
  show "functionWithMiddleware (testFunction :: unit fn) cfg_checked [JNum (- 1), JNum 0]
       \<lparr>world = (), calls = []\<rparr>
     = (Inr (JStr ''error handled''),
        \<lparr>world = (), calls = [CallInput [JNum (- 1), JNum 0], CallBase [JNum (- 2), JNum 0],
           CallOutput (JNum (- 2)) [JNum (- 2), JNum 0],
           CallError (JError 2 ''Output must not be negative'') [JNum (- 2), JNum 0]]\<rparr>)"
    using hook_errors_reach_handleError [where cfg = "cfg_checked :: unit config"
        and he = errorHandled and defn = testFunction and x = "[JNum (- 1), JNum 0]"
        and s = "\<lparr>world = (), calls = []\<rparr>", THEN conjunct2, rule_format,
        where ho = rejectNegative and x' = "[JNum (- 2), JNum 0]" and y = "JNum (- 2)"
        and e = "JError 2 ''Output must not be negative''"
        and ?w1.0 = "()" and ?w2.0 = "()" and ?w3.0 = "()"]
    by (simp add: cfg_checked_def testFunction_def input_events_def)
qed

text \<open>
  C8. With an input hook and an error hook, when the input hook throws, the wrapped
  function gives back what the error hook gives on the base function, the error and the
  inputs of the call, which the hook's result never replaced; the base function is not
  among the calls of that invocation.
\<close>

theorem input_hook_error_recovered:
  assumes "handleInput cfg = Some hi" and "handleError cfg = Some he"
    and "hi defn x (world s) = (Inl e, w1)"
  shows "functionWithMiddleware defn cfg x s =
           (fst (he defn e x w1),
            \<lparr>world = snd (he defn e x w1), calls = calls s @ [CallInput x, CallError e x]\<rparr>)
         \<and> (\<forall>ins. CallBase ins \<notin>
               set (drop (length (calls s)) (calls (snd (functionWithMiddleware defn cfg x s)))))"
  using assms(2) try_block_input_throws [OF assms(1,3)]
  by (simp add: functionWithMiddleware_def invoke_def split: prod.splits)

theorem input_hook_error_recovered_witness:
  "functionWithMiddleware (testFunction :: unit fn) cfg_validate [JNum 5]
       \<lparr>world = (), calls = []\<rparr>
     = (Inr (JStr ''error handled''),
        \<lparr>world = (), calls = [CallInput [JNum 5],
           CallError (JError 1 ''Inputs must be numbers'') [JNum 5]]\<rparr>)"
  using input_hook_error_recovered [where cfg = "cfg_validate :: unit config"
      and hi = validateNumbers and he = errorHandled and x = "[JNum 5]"
      and s = "\<lparr>world = (), calls = []\<rparr>" and defn = testFunction
      and e = "JError 1 ''Inputs must be numbers''" and ?w1.0 = "()"]
  by (simp add: cfg_validate_def)

text \<open>
  C9. When the \<^verbatim>\<open>try\<close> block throws and the error hook, handling that error, throws
  in its turn, the wrapped function throws what the error hook threw. The error hook is
  the last call of the invocation and the only call of the error hook in it.
\<close>

theorem error_hook_error_propagates:
  assumes "handleError cfg = Some he"
    and "try_block defn cfg x s = (Inl e, ins, s1)"
    and "he defn e ins (world s1) = (Inl e2, w2)"
  shows "functionWithMiddleware defn cfg x s =
           (Inl e2, \<lparr>world = w2, calls = calls s1 @ [CallError e ins]\<rparr>)
         \<and> (\<exists>evs. calls s1 = calls s @ evs \<and> (\<forall>e' ins'. CallError e' ins' \<notin> set evs))"
  using assms try_block_calls [of defn cfg x s]
  by (simp add: functionWithMiddleware_def invoke_eq)

theorem error_hook_error_propagates_witness:
  "functionWithMiddleware (faultyFunc :: unit fn) cfg_rethrow [] \<lparr>world = (), calls = []\<rparr>
     = (Inl (JError 0 ''test error''),
        \<lparr>world = (), calls = [CallBase [], CallError (JError 0 ''test error'') []]\<rparr>)"
  using error_hook_error_propagates [where cfg = "cfg_rethrow :: unit config" and he = rethrow
      and defn = faultyFunc and x = "[]" and s = "\<lparr>world = (), calls = []\<rparr>"
      and e = "JError 0 ''test error''" and ins = "[]"
      and ?s1.0 = "\<lparr>world = (), calls = [CallBase []]\<rparr>"
      and ?e2.0 = "JError 0 ''test error''" and ?w2.0 = "()"]
  by (simp add: cfg_rethrow_def faultyFunc_def try_block_def invoke_def)

section \<open>Decoration and its assertions\<close>

lemma hookless_same_behaviour:
  assumes "handleError cfg = None" "handleInput cfg = None" "handleOutput cfg = None"
  shows "same_behaviour (functionWithMiddleware defn cfg) defn"
  using assms
  by (simp add: same_behaviour_def functionWithMiddleware_def try_block_def invoke_def
      split: prod.splits sum.splits)

text \<open>
  C4. Decorating with no configuration gives back the base function itself; decorating with
  a configuration that has no hook and no assertion (the field absent, or the empty list)
  checks nothing and gives back a function that behaves as the base function: the same
  returned value, the same thrown value.
\<close>

theorem identity_passthrough:
  "createFunctionWithMiddleware defn None s = (Inr (undecorated defn), s)
   \<and> same_behaviour (undecorated defn) defn
   \<and> createFunctionWithMiddleware defn (Some empty_config) s
       = (Inr (functionWithMiddleware defn empty_config), s)
   \<and> same_behaviour (functionWithMiddleware defn empty_config) defn
   \<and> createFunctionWithMiddleware defn (Some (empty_config\<lparr>assertions := Some []\<rparr>)) s
       = (Inr (functionWithMiddleware defn (empty_config\<lparr>assertions := Some []\<rparr>)), s)
   \<and> same_behaviour (functionWithMiddleware defn (empty_config\<lparr>assertions := Some []\<rparr>)) defn"
proof -
  have "same_behaviour (undecorated defn) defn"
    by (simp add: same_behaviour_def undecorated_def split: prod.splits)
  moreover have "same_behaviour (functionWithMiddleware defn empty_config) defn"
    by (rule hookless_same_behaviour) (simp_all add: empty_config_def)
  moreover have
    "same_behaviour (functionWithMiddleware defn (empty_config\<lparr>assertions := Some []\<rparr>)) defn"
    by (rule hookless_same_behaviour) (simp_all add: empty_config_def)
  ultimately show ?thesis
    by (simp add: createFunctionWithMiddleware_def empty_config_def)
qed

lemma check_assertions_all_match:
  "all_match g pre s = Some s1 \<Longrightarrow>
     check_assertions defn g (pre @ post) s = check_assertions defn g post s1"
proof (induction pre arbitrary: s)
  case Nil
  then show ?case by simp
next
  case (Cons p pre)
  obtain ins exp where p: "p = (ins, exp)" by (cases p)
  from Cons.prems Cons.IH show ?case
    by (auto simp: p split: prod.splits sum.splits if_splits)
qed

lemma wrapped_ignores_assertions:
  "functionWithMiddleware defn (cfg\<lparr>assertions := as\<rparr>) = functionWithMiddleware defn cfg"
  by (intro ext) (simp add: functionWithMiddleware_def try_block_def
      cong: prod.case_cong sum.case_cong option.case_cong)

lemma wrapped_testFunction:
  "functionWithMiddleware (testFunction :: unit fn) (cfg_asserts as) [JNum a, JNum b]
       \<lparr>world = (), calls = cs\<rparr>
     = (Inr (JNum (a + b)), \<lparr>world = (), calls = cs @ [CallBase [JNum a, JNum b]]\<rparr>)"
  by (simp add: functionWithMiddleware_def try_block_def invoke_def cfg_asserts_def
      testFunction_def)

text \<open>
  C5. Decoration calls the wrapped function on the inputs of each pair, in the order of the
  list, each call starting from the state the one before left. At the first pair whose
  call returns a value not strictly equal to the expected one, decoration throws a new error
  whose message holds the name of the base function, the inputs of the pair joined by a
  comma and a space, the expected value and the returned value; the state is the one that
  call left, so no later pair is checked, and no function is returned. When every pair
  matches, the wrapped function is returned; it is the same function whatever the
  assertions are, so a call of it checks none.
\<close>

theorem assertions_checked_in_order:
  "(all_match (functionWithMiddleware defn cfg) pre s = Some s1 \<and>
      functionWithMiddleware defn cfg inputs s1 = (Inr actual, s2) \<and>
      \<not> strict_eq actual expected \<and>
      assertions cfg = Some (pre @ (inputs, expected) # post) \<longrightarrow>
      createFunctionWithMiddleware defn (Some cfg) s =
        (Inl (NewError (''Expected '' @ name defn @ ''('' @ join inputs '', '' @ '') to return ''
           @ to_string expected @ '', but got '' @ to_string actual @ ''.'')), s2))
   \<and> (all_match (functionWithMiddleware defn cfg) as s = Some s' \<and> assertions cfg = Some as \<longrightarrow>
      createFunctionWithMiddleware defn (Some cfg) s = (Inr (functionWithMiddleware defn cfg), s'))
   \<and> functionWithMiddleware defn cfg = functionWithMiddleware defn (cfg\<lparr>assertions := None\<rparr>)"
proof (intro conjI impI)
  assume h: "all_match (functionWithMiddleware defn cfg) pre s = Some s1 \<and>
      functionWithMiddleware defn cfg inputs s1 = (Inr actual, s2) \<and>
      \<not> strict_eq actual expected \<and>
      assertions cfg = Some (pre @ (inputs, expected) # post)"
  then have "check_assertions defn (functionWithMiddleware defn cfg)
        (pre @ (inputs, expected) # post) s
      = (Some (NewError (mismatch_message defn inputs expected actual)), s2)"
    using check_assertions_all_match [of "functionWithMiddleware defn cfg" pre s s1 defn
        "(inputs, expected) # post"]
    by simp
  with h show "createFunctionWithMiddleware defn (Some cfg) s =
        (Inl (NewError (''Expected '' @ name defn @ ''('' @ join inputs '', '' @ '') to return ''
           @ to_string expected @ '', but got '' @ to_string actual @ ''.'')), s2)"
    by (simp add: createFunctionWithMiddleware_def mismatch_message_def)
next
  assume h: "all_match (functionWithMiddleware defn cfg) as s = Some s' \<and> assertions cfg = Some as"
  then have "check_assertions defn (functionWithMiddleware defn cfg) as s = (None, s')"
    using check_assertions_all_match [of "functionWithMiddleware defn cfg" as s s' defn "[]"]
    by simp
  with h show "createFunctionWithMiddleware defn (Some cfg) s
      = (Inr (functionWithMiddleware defn cfg), s')"
    by (simp add: createFunctionWithMiddleware_def)
next
  show "functionWithMiddleware defn cfg = functionWithMiddleware defn (cfg\<lparr>assertions := None\<rparr>)"
    by (simp add: wrapped_ignores_assertions)
qed

theorem assertions_checked_in_order_witness:
  "createFunctionWithMiddleware (testFunction :: unit fn)
       (Some (cfg_asserts [([JNum 1, JNum 2], JNum 3), ([JNum 3, JNum 4], JNum 8),
          ([JNum 0, JNum 0], JNum 0)]))
       \<lparr>world = (), calls = []\<rparr>
     = (Inl (NewError ''Expected testFunction(3, 4) to return 8, but got 7.''),
        \<lparr>world = (), calls = [CallBase [JNum 1, JNum 2], CallBase [JNum 3, JNum 4]]\<rparr>)
   \<and> createFunctionWithMiddleware (testFunction :: unit fn)
       (Some (cfg_asserts [([JNum 1, JNum 2], JNum 3), ([JNum 3, JNum 4], JNum 7)]))
       \<lparr>world = (), calls = []\<rparr>
     = (Inr (functionWithMiddleware testFunction
          (cfg_asserts [([JNum 1, JNum 2], JNum 3), ([JNum 3, JNum 4], JNum 7)])),
        \<lparr>world = (), calls = [CallBase [JNum 1, JNum 2], CallBase [JNum 3, JNum 4]]\<rparr>)"
proof
  show "createFunctionWithMiddleware (testFunction :: unit fn)
       (Some (cfg_asserts [([JNum 1, JNum 2], JNum 3), ([JNum 3, JNum 4], JNum 8),
          ([JNum 0, JNum 0], JNum 0)]))
       \<lparr>world = (), calls = []\<rparr>
     = (Inl (NewError ''Expected testFunction(3, 4) to return 8, but got 7.''),
        \<lparr>world = (), calls = [CallBase [JNum 1, JNum 2], CallBase [JNum 3, JNum 4]]\<rparr>)"
    using assertions_checked_in_order [where defn = "testFunction :: unit fn"
        and cfg = "cfg_asserts [([JNum 1, JNum 2], JNum 3), ([JNum 3, JNum 4], JNum 8),
          ([JNum 0, JNum 0], JNum 0)]"
        and pre = "[([JNum 1, JNum 2], JNum 3)]" and inputs = "[JNum 3, JNum 4]"
        and expected = "JNum 8" and actual = "JNum 7" and post = "[([JNum 0, JNum 0], JNum 0)]"
        and s = "\<lparr>world = (), calls = []\<rparr>"
        and ?s1.0 = "\<lparr>world = (), calls = [CallBase [JNum 1, JNum 2]]\<rparr>"
        and ?s2.0 = "\<lparr>world = (), calls = [CallBase [JNum 1, JNum 2], CallBase [JNum 3, JNum 4]]\<rparr>",
        THEN conjunct1]
    by (simp add: wrapped_testFunction)
       (simp add: cfg_asserts_def testFunction_def number_to_string_def)
next
  show "createFunctionWithMiddleware (testFunction :: unit fn)
       (Some (cfg_asserts [([JNum 1, JNum 2], JNum 3), ([JNum 3, JNum 4], JNum 7)]))
       \<lparr>world = (), calls = []\<rparr>
     = (Inr (functionWithMiddleware testFunction
          (cfg_asserts [([JNum 1, JNum 2], JNum 3), ([JNum 3, JNum 4], JNum 7)])),
        \<lparr>world = (), calls = [CallBase [JNum 1, JNum 2], CallBase [JNum 3, JNum 4]]\<rparr>)"
    using assertions_checked_in_order [where defn = "testFunction :: unit fn"
        and cfg = "cfg_asserts [([JNum 1, JNum 2], JNum 3), ([JNum 3, JNum 4], JNum 7)]"
        and as = "[([JNum 1, JNum 2], JNum 3), ([JNum 3, JNum 4], JNum 7)]"
        and s = "\<lparr>world = (), calls = []\<rparr>"
        and s' = "\<lparr>world = (), calls = [CallBase [JNum 1, JNum 2], CallBase [JNum 3, JNum 4]]\<rparr>",
        THEN conjunct2, THEN conjunct1]
    by (simp add: wrapped_testFunction) (simp add: cfg_asserts_def)
qed

text \<open>
  C10. When the call of the wrapped function on the inputs of a pair throws, the pairs
  before it having matched, decoration throws that same value: no mismatch error is built,
  the state is the one the throwing call left, so no later pair is checked, and no function
  is returned.
\<close>

theorem assertion_call_error_propagates:
  assumes "assertions cfg = Some (pre @ (inputs, expected) # post)"
    and "all_match (functionWithMiddleware defn cfg) pre s = Some s1"
    and "functionWithMiddleware defn cfg inputs s1 = (Inl e, s2)"
  shows "createFunctionWithMiddleware defn (Some cfg) s = (Inl (Raised e), s2)"
  using assms check_assertions_all_match [OF assms(2), of defn "(inputs, expected) # post"]
  by (simp add: createFunctionWithMiddleware_def)

theorem assertion_call_error_propagates_witness:
  "createFunctionWithMiddleware (testFunction :: unit fn)
       (Some (cfg_validate_asserts [([JNum 1, JNum 2], JNum 3), ([JStr ''3'', JNum 4], JNum 7),
          ([JNum 0, JNum 0], JNum 1)]))
       \<lparr>world = (), calls = []\<rparr>
     = (Inl (Raised (JError 1 ''Inputs must be numbers'')),
        \<lparr>world = (), calls = [CallInput [JNum 1, JNum 2], CallBase [JNum 1, JNum 2],
           CallInput [JStr ''3'', JNum 4]]\<rparr>)"
  using assertion_call_error_propagates [where defn = "testFunction :: unit fn"
      and cfg = "cfg_validate_asserts [([JNum 1, JNum 2], JNum 3), ([JStr ''3'', JNum 4], JNum 7),
          ([JNum 0, JNum 0], JNum 1)]"
      and pre = "[([JNum 1, JNum 2], JNum 3)]" and inputs = "[JStr ''3'', JNum 4]"
      and expected = "JNum 7" and post = "[([JNum 0, JNum 0], JNum 1)]"
      and e = "JError 1 ''Inputs must be numbers''"
      and s = "\<lparr>world = (), calls = []\<rparr>"
      and ?s1.0 = "\<lparr>world = (), calls = [CallInput [JNum 1, JNum 2], CallBase [JNum 1, JNum 2]]\<rparr>"
      and ?s2.0 = "\<lparr>world = (), calls = [CallInput [JNum 1, JNum 2], CallBase [JNum 1, JNum 2],
           CallInput [JStr ''3'', JNum 4]]\<rparr>"]
  by (simp add: cfg_validate_asserts_def testFunction_def functionWithMiddleware_def
      try_block_def invoke_def)

section \<open>No state between calls\<close>

lemma pure_effect_eq: "pure_effect f \<Longrightarrow> f w = (fst (f undefined), w)"
  by (metis pure_effect_def prod.collapse)

lemma pure_undecorated:
  assumes "\<forall>x. pure_effect (body defn x)"
  shows "fst (undecorated defn x s) = fst (undecorated defn x s')"
proof -
  define rb where "rb = fst (body defn x undefined)"
  have b: "body defn x w = (rb, w)" for w
    using assms pure_effect_eq [of "body defn x" w] by (simp add: rb_def)
  show ?thesis by (simp add: undecorated_def b)
qed

lemma pure_wrapped:
  assumes "pure_parts defn (Some cfg)"
  shows "fst (functionWithMiddleware defn cfg x s) = fst (functionWithMiddleware defn cfg x s')"
proof -
  define rb where "rb x = fst (body defn x undefined)" for x
  define ri where "ri hi x = fst (hi defn x undefined)"
    for hi :: "'a fn \<Rightarrow> jsval list \<Rightarrow> (jsval list, 'a) effect" and x
  define ro where "ro ho y x = fst (ho defn y x undefined)"
    for ho :: "'a fn \<Rightarrow> jsval \<Rightarrow> jsval list \<Rightarrow> (jsval, 'a) effect" and y x
  have b: "body defn x w = (rb x, w)" for x w
    using assms pure_effect_eq [of "body defn x" w] by (simp add: rb_def pure_parts_def)
  have i: "handleInput cfg = Some hi \<Longrightarrow> hi defn x w = (ri hi x, w)" for hi x w
    using assms pure_effect_eq [of "hi defn x" w] by (simp add: ri_def pure_parts_def)
  have o: "handleOutput cfg = Some ho \<Longrightarrow> ho defn y x w = (ro ho y x, w)" for ho y x w
    using assms pure_effect_eq [of "ho defn y x" w] by (simp add: ro_def pure_parts_def)
  have e: "handleError cfg = Some he \<Longrightarrow> he defn er x w = (ro he er x, w)" for he er x w
    using assms pure_effect_eq [of "he defn er x" w] by (simp add: ro_def pure_parts_def)
  show ?thesis
    by (cases "handleInput cfg"; cases "handleOutput cfg"; cases "handleError cfg")
       (simp_all add: functionWithMiddleware_def try_block_def invoke_def b i o e
          split: sum.splits)
qed

lemma pure_add_body: "pure_effect (add_body x)"
  unfolding pure_effect_def
proof (intro allI)
  fix w w' :: 'a
  show "fst (add_body x w) = fst (add_body x w') \<and> snd (add_body x w) = w"
    by (induction x w rule: add_body.induct) simp_all
qed

lemma pure_doubleInputs: "pure_effect (doubleInputs defn x)"
  unfolding pure_effect_def
proof (intro allI)
  fix w w' :: 'a
  show "fst (doubleInputs defn x w) = fst (doubleInputs defn x w')
      \<and> snd (doubleInputs defn x w) = w"
    by (induction defn x w rule: doubleInputs.induct) simp_all
qed

lemma pure_rejectNegative: "pure_effect (rejectNegative defn y x)"
  unfolding pure_effect_def
proof (intro allI)
  fix w w' :: 'a
  show "fst (rejectNegative defn y x w) = fst (rejectNegative defn y x w')
      \<and> snd (rejectNegative defn y x w) = w"
    by (induction defn y x w rule: rejectNegative.induct) simp_all
qed

lemma pure_errorHandled: "pure_effect (errorHandled defn e x)"
  by (simp add: pure_effect_def)

lemma pure_parts_checked: "pure_parts testFunction (Some cfg_checked)"
  by (simp add: pure_parts_def cfg_checked_def testFunction_def pure_add_body pure_doubleInputs
      pure_rejectNegative pure_errorHandled)

text \<open>
  C7. The function that decoration returns has no state of its own: when the base function
  and the hooks are pure, what a call returns or throws is the same in every state, and so
  the same after any calls made in between.
\<close>

theorem wrapped_keeps_no_state:
  assumes "pure_parts defn config"
    and "createFunctionWithMiddleware defn config s0 = (Inr g, s1)"
  shows "(\<forall>s s'. fst (g x s) = fst (g x s'))
       \<and> fst (g x (run_calls g between (snd (g x s)))) = fst (g x s)"
proof -
  have "g = undecorated defn \<or> (\<exists>cfg. config = Some cfg \<and> g = functionWithMiddleware defn cfg)"
    using assms(2)
    by (auto simp: createFunctionWithMiddleware_def split: option.splits prod.splits)
  then have "fst (g x s) = fst (g x s')" for s s'
    using assms(1) pure_undecorated [of defn x s s'] pure_wrapped [of defn _ x s s']
    by (auto simp: pure_parts_def)
  then show ?thesis by blast
qed

theorem wrapped_keeps_no_state_witness:
  "fst (functionWithMiddleware testFunction cfg_checked [JNum 2, JNum 3]
          (run_calls (functionWithMiddleware testFunction cfg_checked)
             [[JNum (- 1), JNum 0], [JStr ''a'']]
             (snd (functionWithMiddleware testFunction cfg_checked [JNum 2, JNum 3]
                \<lparr>world = (0::nat), calls = []\<rparr>))))
     = fst (functionWithMiddleware testFunction cfg_checked [JNum 2, JNum 3]
          \<lparr>world = (0::nat), calls = []\<rparr>)"
proof -
  have "createFunctionWithMiddleware testFunction (Some cfg_checked)
        \<lparr>world = (0::nat), calls = []\<rparr>
      = (Inr (functionWithMiddleware testFunction cfg_checked), \<lparr>world = 0, calls = []\<rparr>)"
    by (simp add: createFunctionWithMiddleware_def cfg_checked_def)
  from wrapped_keeps_no_state [OF pure_parts_checked this, THEN conjunct2]
  show ?thesis .
qed

end
